theory Spec2Isabelle
  imports Complex_Main "HOL-Library.Log_Nat"
begin

section \<open>Numbers\<close>

text \<open>
  The TypeScript sources compute with the \<^verbatim>\<open>number\<close> type, IEEE 754 doubles. The
  model reads a finite \<^verbatim>\<open>number\<close> as the \<^typ>\<open>real\<close> it denotes; a nullable
  \<^verbatim>\<open>number | null\<close> is a \<^typ>\<open>real option\<close>. The one place where the source
  can meet \<^verbatim>\<open>NaN\<close> (the brightness of an empty colour triple) is modelled by
  \<^term>\<open>None\<close>, see \<open>brightness\<close>.

  \<^verbatim>\<open>Math.round(x)\<close> is the integer nearest to \<open>x\<close>, ties going up;
  \<^verbatim>\<open>Math.floor(x)\<close> is the largest integer not above \<open>x\<close>. Both are exact on
  doubles of the size met here.
\<close>

definition Math_round :: "real \<Rightarrow> real" where
  "Math_round x = of_int \<lfloor>x + 1 / 2\<rfloor>"

definition Math_floor :: "real \<Rightarrow> real" where
  "Math_floor x = of_int \<lfloor>x\<rfloor>"

text \<open>
  An arithmetic operation on doubles returns the double nearest to the exact result, a
  tie going to the neighbour with an even significand. \<open>dbl x\<close> is that double: with
  \<open>e\<close> the binary exponent of \<open>x\<close> (not below -1022, where the subnormal range
  begins), the doubles around \<open>x\<close> are the multiples of \<open>2 powi (e - 52)\<close>.
  Overflow to infinity, beyond \<open>2 ^ 1024\<close>, is left out: no value computed here
  comes near it.

  \<open>roundEven y\<close> is the integer nearest to \<open>y\<close>, a tie going to the even one;
  \<open>ilog2 x\<close> is the integer part of the binary logarithm of a positive \<open>x\<close>,
  computed from the bit length of its integer part (or, below 1, of its reciprocal).

  The arithmetic of the motion score, the face-position score and the weighted blend of
  \<open>updateSignalQuality\<close> is rounded with \<open>dbl\<close> operation by operation, as the
  source evaluates it: the bounds of the motion score and the stored overall score depend
  on it. The brightness, the lighting formula and the generated vitals are written with
  exact arithmetic.
\<close>

definition roundEven :: "real \<Rightarrow> int" where
  "roundEven y =
     (let f = \<lfloor>y\<rfloor>; d = y - of_int f
      in if d < 1 / 2 then f
         else if 1 / 2 < d then f + 1
         else if even f then f else f + 1)"

definition ilog2 :: "real \<Rightarrow> int" where
  "ilog2 x = (if 1 \<le> x then bitlen \<lfloor>x\<rfloor> - 1 else - bitlen (\<lceil>1 / x\<rceil> - 1))"

definition dbl :: "real \<Rightarrow> real" where
  "dbl x =
     (if x = 0 then 0
      else (let e = max (- 1022) (ilog2 \<bar>x\<bar>); u = 2 powi (e - 52)
            in u * of_int (roundEven (x / u))))"

section \<open>Status mapping of the vital monitor (VitalMonitor.tsx)\<close>

datatype VitalStatus = Normal | Warning | Critical | Unknown

text \<open>
  \<^verbatim>\<open>
  function getHeartRateStatus(hr: number | null) {
      if (hr === null) return "unknown";
      if (hr < 50 || hr > 120) return "critical";
      if (hr < 60 || hr > 100) return "warning";
      return "normal";
  }
  \<close>
\<close>

fun getHeartRateStatus :: "real option \<Rightarrow> VitalStatus" where
  "getHeartRateStatus None = Unknown"
| "getHeartRateStatus (Some hr) =
     (if hr < 50 \<or> hr > 120 then Critical
      else if hr < 60 \<or> hr > 100 then Warning
      else Normal)"

section \<open>The measurement session (presage.ts)\<close>

subsection \<open>Data\<close>

datatype MeasurementState = Idle | Initializing | Calibrating | Measuring | Paused | Error

record BloodPressure =
  systolic :: real
  diastolic :: real

record PresageVitalsData =
  heartRate :: "real option"
  heartRateConfidence :: real
  oxygenSaturation :: "real option"
  oxygenSaturationConfidence :: real
  respiratoryRate :: "real option"
  respiratoryRateConfidence :: real
  bloodPressure :: "BloodPressure option"
  bloodPressureConfidence :: real
  stressLevel :: "real option"
  hrv :: "real option"
  hrvConfidence :: real
  timestamp :: nat

record SignalQuality =
  overall :: real
  faceDetected :: bool
  facePositionQuality :: real
  lightingQuality :: real
  motionStability :: real
  recommendation :: "string option"

datatype PresageErrorCode =
  INVALID_API_KEY | CAMERA_ACCESS_DENIED | NO_FACE_DETECTED | POOR_LIGHTING
| EXCESSIVE_MOTION | SDK_INIT_FAILED | MEASUREMENT_FAILED | NETWORK_ERROR | UNKNOWN

record PresageError =
  code :: PresageErrorCode
  message :: string

text \<open>
  The callbacks of \<^verbatim>\<open>PresageCallbacks\<close> are the session's only output. Every
  callback is optional and called as \<^verbatim>\<open>callbacks.onX?.(...)\<close>; the model records each
  such call, in order, as an event, which is what a host that supplies all of them
  observes.
\<close>

datatype Event =
  OnVitalsUpdate PresageVitalsData
| OnSignalQualityChange SignalQuality
| OnFaceDetectionChange bool
| OnMeasurementStart
| OnMeasurementStop
| OnError PresageError
| OnReady

text \<open>
  The variables that \<^verbatim>\<open>startPresageMeasurement\<close> declares with \<^verbatim>\<open>let\<close> and that its
  inner functions share, together with the host's table of running interval timers
  (\<open>timers\<close>, the handles \<^verbatim>\<open>setInterval\<close> has returned and \<^verbatim>\<open>clearInterval\<close> has not
  yet cancelled), the last handle given out, and the record of callback invocations.
\<close>

record Closure =
  state :: MeasurementState
  measurementInterval :: "nat option"
  latestVitals :: "PresageVitalsData option"
  signalQuality :: SignalQuality
  frameCount :: nat
  calibrationComplete :: bool
  timers :: "nat list"
  lastHandle :: nat
  events :: "Event list"

text \<open>
  The object \<^verbatim>\<open>startPresageMeasurement\<close> returns. Its methods are the functions below;
  its data fields are \<^verbatim>\<open>sessionId\<close> and \<^verbatim>\<open>state\<close> (here \<open>sessionState\<close>, since the
  closure variable has the same name). The object literal copies the value the variable
  \<^verbatim>\<open>state\<close> has when the literal is evaluated.
\<close>

record PresageSession =
  sessionId :: string
  sessionState :: MeasurementState

text \<open>
  What one run of the measurement loop reads from outside: the result of
  \<^verbatim>\<open>analyzeFrame()\<close> (which samples the video element through a canvas), one value for
  each call site of \<^verbatim>\<open>Math.random()\<close>, and the clock of \<^verbatim>\<open>new Date()\<close>.
\<close>

record TickInput =
  frameFaceDetected :: bool
  rgbValues :: "real list"
  rndMotion :: real
  rndPosition :: real
  rndHrVariance :: real
  rndHrConfidence :: real
  rndSpo2 :: real
  rndSpo2Confidence :: real
  rndResp :: real
  rndRespConfidence :: real
  rndSystolic :: real
  rndDiastolic :: real
  rndBpConfidence :: real
  rndStress :: real
  rndHrv :: real
  rndHrvConfidence :: real
  now :: nat

definition INITIAL_SIGNAL_QUALITY :: SignalQuality where
  "INITIAL_SIGNAL_QUALITY =
     \<lparr>overall = 0, faceDetected = False, facePositionQuality = 0, lightingQuality = 0,
      motionStability = 0,
      recommendation = Some ''Position your face in the camera frame''\<rparr>"

definition emit :: "Event \<Rightarrow> Closure \<Rightarrow> Closure" where
  "emit e w = w\<lparr>events := events w @ [e]\<rparr>"

text \<open>
  \<^verbatim>\<open>setInterval\<close> starts a new timer and returns its handle, a positive number that
  no earlier call returned; \<^verbatim>\<open>clearInterval\<close> cancels the timer of a handle.
\<close>

definition setInterval :: "Closure \<Rightarrow> nat \<times> Closure" where
  "setInterval w =
     (let h = Suc (lastHandle w)
      in (h, w\<lparr>timers := timers w @ [h], lastHandle := h\<rparr>))"

definition clearInterval :: "nat \<Rightarrow> Closure \<Rightarrow> Closure" where
  "clearInterval h w = w\<lparr>timers := removeAll h (timers w)\<rparr>"

subsection \<open>Signal quality\<close>

text \<open>
  \<^verbatim>\<open>
  const [r, g, b] = rgbValues;
  const brightness = (r + g + b) / 3;
  \<close>
  A list shorter than three leaves a component \<^verbatim>\<open>undefined\<close> and the brightness
  \<^verbatim>\<open>NaN\<close>, which is \<^term>\<open>None\<close> here.
\<close>

definition brightness :: "real list \<Rightarrow> real option" where
  "brightness rgb = (case rgb of r # g # b # _ \<Rightarrow> Some ((r + g + b) / 3) | _ \<Rightarrow> None)"

text \<open>
  \<^verbatim>\<open>
  const lightingQuality = Math.min(100, Math.max(0,
      brightness > 50 && brightness < 200 ? 100 - Math.abs(brightness - 125) * 0.5 : 30));
  \<close>
  Every comparison with \<^verbatim>\<open>NaN\<close> is false, so a \<^verbatim>\<open>NaN\<close> brightness takes the flat 30.
\<close>

definition lightingQualityOf :: "real option \<Rightarrow> real" where
  "lightingQualityOf br =
     min 100 (max 0
       (case br of
          Some x \<Rightarrow> if x > 50 \<and> x < 200 then 100 - \<bar>x - 125\<bar> * 0.5 else 30
        | None \<Rightarrow> 30))"

text \<open>
  \<^verbatim>\<open>const motionStability = 70 + Math.random() * 30;\<close>
  The product is rounded to a double, then the sum.
\<close>

definition motionStabilityOf :: "real \<Rightarrow> real" where
  "motionStabilityOf rnd = dbl (70 + dbl (rnd * 30))"

text \<open>\<^verbatim>\<open>const facePositionQuality = faceDetected ? 80 + Math.random() * 20 : 0;\<close>\<close>

definition facePositionQualityOf :: "bool \<Rightarrow> real \<Rightarrow> real" where
  "facePositionQualityOf fd rnd = (if fd then dbl (80 + dbl (rnd * 20)) else 0)"

text \<open>
  \<^verbatim>\<open>
  const overall = faceDetected
      ? (lightingQuality * 0.3 + motionStability * 0.3 + facePositionQuality * 0.4)
      : 0;
  \<close>
  The literals are the doubles nearest to 0.3 and 0.4; the three products are rounded,
  then the sum of the first two, then the sum with the third.
\<close>

definition overallOf :: "bool \<Rightarrow> real \<Rightarrow> real \<Rightarrow> real \<Rightarrow> real" where
  "overallOf fd lq ms fpq =
     (if fd
      then dbl (dbl (dbl (lq * dbl 0.3) + dbl (ms * dbl 0.3)) + dbl (fpq * dbl 0.4))
      else 0)"

definition msgPositionFace :: string where
  "msgPositionFace = ''Position your face in the center of the frame''"

definition msgImproveLighting :: string where
  "msgImproveLighting = ''Improve lighting conditions for better accuracy''"

definition msgHoldStill :: string where
  "msgHoldStill = ''Please hold still for accurate measurements''"

definition recommendationOf :: "bool \<Rightarrow> real \<Rightarrow> real \<Rightarrow> string option" where
  "recommendationOf fd lq ms =
     (if \<not> fd then Some msgPositionFace
      else if lq < 50 then Some msgImproveLighting
      else if ms < 60 then Some msgHoldStill
      else None)"

text \<open>
  \<^verbatim>\<open>updateSignalQuality\<close>: the five values above, stored rounded (the overall score and
  each sub-score through its own \<^verbatim>\<open>Math.round\<close>), then the two notifications. The
  test for the second one reads \<^verbatim>\<open>signalQuality.faceDetected\<close> after the assignment.
\<close>

definition updateSignalQuality ::
  "bool \<Rightarrow> real list \<Rightarrow> real \<Rightarrow> real \<Rightarrow> Closure \<Rightarrow> Closure" where
  "updateSignalQuality fd rgb rndM rndP w =
     (let lq = lightingQualityOf (brightness rgb);
          ms = motionStabilityOf rndM;
          fpq = facePositionQualityOf fd rndP;
          ov = overallOf fd lq ms fpq;
          rec = recommendationOf fd lq ms;
          w1 = w\<lparr>signalQuality :=
                 \<lparr>overall = Math_round ov, faceDetected = fd,
                  facePositionQuality = Math_round fpq,
                  lightingQuality = Math_round lq,
                  motionStability = Math_round ms,
                  recommendation = rec\<rparr>\<rparr>;
          w2 = emit (OnSignalQualityChange (signalQuality w1)) w1
      in if fd \<noteq> faceDetected (signalQuality w2)
         then emit (OnFaceDetectionChange fd) w2 else w2)"

subsection \<open>Vitals\<close>

text \<open>
  \<^verbatim>\<open>generateVitals\<close> reads \<^verbatim>\<open>frameCount\<close> and \<^verbatim>\<open>signalQuality.faceDetected\<close> from
  the closure. Each field is a conditional on the face flag; the base heart rate is 72
  and its variance \<^verbatim>\<open>Math.sin(frameCount * 0.1) * 5 + (Math.random() - 0.5) * 4\<close>.
\<close>

definition generateVitals :: "TickInput \<Rightarrow> Closure \<Rightarrow> PresageVitalsData" where
  "generateVitals i w =
     (let fd = faceDetected (signalQuality w);
          baseHR = 72;
          hrVariance = sin (real (frameCount w) * 0.1) * 5 + (rndHrVariance i - 0.5) * 4
      in \<lparr>heartRate = (if fd then Some (Math_round (baseHR + hrVariance)) else None),
          heartRateConfidence = (if fd then 0.85 + rndHrConfidence i * 0.1 else 0),
          oxygenSaturation = (if fd then Some (96 + Math_floor (rndSpo2 i * 3)) else None),
          oxygenSaturationConfidence = (if fd then 0.8 + rndSpo2Confidence i * 0.15 else 0),
          respiratoryRate = (if fd then Some (14 + Math_floor (rndResp i * 4)) else None),
          respiratoryRateConfidence = (if fd then 0.75 + rndRespConfidence i * 0.2 else 0),
          bloodPressure =
            (if fd then Some \<lparr>systolic = 115 + Math_floor (rndSystolic i * 15),
                              diastolic = 75 + Math_floor (rndDiastolic i * 10)\<rparr>
             else None),
          bloodPressureConfidence = (if fd then 0.7 + rndBpConfidence i * 0.15 else 0),
          stressLevel = (if fd then Some (Math_floor (30 + rndStress i * 40)) else None),
          hrv = (if fd then Some (Math_floor (40 + rndHrv i * 30)) else None),
          hrvConfidence = (if fd then 0.65 + rndHrvConfidence i * 0.2 else 0),
          timestamp = now i\<rparr>)"

subsection \<open>The loop and the control surface\<close>

text \<open>
  \<^verbatim>\<open>
  const measurementLoop = (): void => {
      frameCount++;
      const { faceDetected, rgbValues } = analyzeFrame();
      updateSignalQuality(faceDetected, rgbValues);
      if (!calibrationComplete && frameCount < 3) { state = "calibrating"; return; }
      if (!calibrationComplete) {
          calibrationComplete = true; state = "measuring"; callbacks.onReady?.();
      }
      if (state === "measuring" && signalQuality.faceDetected) {
          latestVitals = generateVitals();
          callbacks.onVitalsUpdate?.(latestVitals);
      }
  };
  \<close>
\<close>

definition measurementLoop :: "TickInput \<Rightarrow> Closure \<Rightarrow> Closure" where
  "measurementLoop i w =
     (let w1 = w\<lparr>frameCount := frameCount w + 1\<rparr>;
          w2 = updateSignalQuality (frameFaceDetected i) (rgbValues i)
                 (rndMotion i) (rndPosition i) w1
      in if \<not> calibrationComplete w2 \<and> frameCount w2 < 3
         then w2\<lparr>state := Calibrating\<rparr>
         else
           (let w3 = (if \<not> calibrationComplete w2
                      then emit OnReady (w2\<lparr>calibrationComplete := True, state := Measuring\<rparr>)
                      else w2)
            in if state w3 = Measuring \<and> faceDetected (signalQuality w3)
               then (let v = generateVitals i w3
                     in emit (OnVitalsUpdate v) (w3\<lparr>latestVitals := Some v\<rparr>))
               else w3))"

text \<open>
  \<^verbatim>\<open>
  const start = async (): Promise<void> => {
      if (state === "measuring") return;
      state = "calibrating"; frameCount = 0; calibrationComplete = false;
      callbacks.onMeasurementStart?.();
      measurementInterval = setInterval(measurementLoop, 1000);
  };
  \<close>
\<close>

definition start :: "Closure \<Rightarrow> Closure" where
  "start w =
     (if state w = Measuring then w
      else
        (let w1 = w\<lparr>state := Calibrating, frameCount := 0, calibrationComplete := False\<rparr>;
             w2 = emit OnMeasurementStart w1;
             (h, w3) = setInterval w2
         in w3\<lparr>measurementInterval := Some h\<rparr>))"

text \<open>
  \<^verbatim>\<open>
  const pause = (): void => {
      if (measurementInterval) { clearInterval(measurementInterval); measurementInterval = null; }
      state = "paused";
  };
  \<close>
  A handle is never zero, so the test is whether the variable holds one.
\<close>

definition pause :: "Closure \<Rightarrow> Closure" where
  "pause w =
     (let w1 = (case measurementInterval w of
                  Some h \<Rightarrow> (clearInterval h w)\<lparr>measurementInterval := None\<rparr>
                | None \<Rightarrow> w)
      in w1\<lparr>state := Paused\<rparr>)"

text \<open>
  \<^verbatim>\<open>
  const resume = (): void => {
      if (state !== "paused") return;
      state = "measuring";
      measurementInterval = setInterval(measurementLoop, 1000);
  };
  \<close>
\<close>

definition resume :: "Closure \<Rightarrow> Closure" where
  "resume w =
     (if state w \<noteq> Paused then w
      else
        (let w1 = w\<lparr>state := Measuring\<rparr>;
             (h, w2) = setInterval w1
         in w2\<lparr>measurementInterval := Some h\<rparr>))"

text \<open>
  \<^verbatim>\<open>
  const stop = (): void => {
      if (measurementInterval) { clearInterval(measurementInterval); measurementInterval = null; }
      state = "idle";
      callbacks.onMeasurementStop?.();
  };
  \<close>
\<close>

definition stop :: "Closure \<Rightarrow> Closure" where
  "stop w =
     (let w1 = (case measurementInterval w of
                  Some h \<Rightarrow> (clearInterval h w)\<lparr>measurementInterval := None\<rparr>
                | None \<Rightarrow> w)
      in emit OnMeasurementStop (w1\<lparr>state := Idle\<rparr>))"

text \<open>
  \<^verbatim>\<open>startPresageMeasurement\<close>: without an API key (absent or empty) it reports the
  error and throws; otherwise it declares the variables, builds the session object from
  their current values and only then runs \<^verbatim>\<open>start\<close>. The session id, made from the
  clock and a random number, is a parameter.
\<close>

definition initialClosure :: Closure where
  "initialClosure =
     \<lparr>state = Initializing, measurementInterval = None, latestVitals = None,
      signalQuality = INITIAL_SIGNAL_QUALITY, frameCount = 0, calibrationComplete = False,
      timers = [], lastHandle = 0, events = []\<rparr>"

definition startPresageMeasurement ::
  "string option \<Rightarrow> string \<Rightarrow> PresageError + (PresageSession \<times> Closure)" where
  "startPresageMeasurement apiKey sid =
     (if apiKey = None \<or> apiKey = Some []
      then Inl \<lparr>code = INVALID_API_KEY,
                message = ''Presage API key not configured. Add NEXT_PUBLIC_PRESAGE_API_KEY to your environment.''\<rparr>
      else
        (let w0 = initialClosure;
             session = \<lparr>sessionId = sid, sessionState = state w0\<rparr>
         in Inr (session, start w0)))"

subsection \<open>Runs\<close>

text \<open>
  What can happen to a session after it is created: a call of one of its four control
  methods, or a running timer calling the loop once (no timer, no call).
\<close>

datatype Op = Start | Pause | Resume | Stop | Tick TickInput

fun step :: "Op \<Rightarrow> Closure \<Rightarrow> Closure" where
  "step Start w = start w"
| "step Pause w = pause w"
| "step Resume w = resume w"
| "step Stop w = stop w"
| "step (Tick i) w = (if timers w = [] then w else measurementLoop i w)"

fun ticks :: "TickInput list \<Rightarrow> Closure \<Rightarrow> Closure" where
  "ticks [] w = w"
| "ticks (i # is) w = ticks is (measurementLoop i w)"

text \<open>The callbacks invoked on the way from \<open>w\<close> to \<open>w'\<close>.\<close>

definition emitted :: "Closure \<Rightarrow> Closure \<Rightarrow> Event list" where
  "emitted w w' = drop (length (events w)) (events w')"

fun isVitalsUpdate :: "Event \<Rightarrow> bool" where
  "isVitalsUpdate (OnVitalsUpdate v) = True"
| "isVitalsUpdate e = False"

fun isFaceDetectionChange :: "Event \<Rightarrow> bool" where
  "isFaceDetectionChange (OnFaceDetectionChange b) = True"
| "isFaceDetectionChange e = False"

text \<open>
  Two inputs for one run of the loop, used to run the definitions: a frame whose sampled
  region averages to (150, 125, 100), which passes the skin-tone test of
  \<^verbatim>\<open>analyzeFrame\<close>, and an unavailable frame (\<^verbatim>\<open>{ faceDetected: false, rgbValues: [] }\<close>);
  every random draw is one half.
\<close>

definition faceInput :: TickInput where
  "faceInput =
     \<lparr>frameFaceDetected = True, rgbValues = [150, 125, 100],
      rndMotion = 1 / 2, rndPosition = 1 / 2, rndHrVariance = 1 / 2,
      rndHrConfidence = 1 / 2, rndSpo2 = 1 / 2, rndSpo2Confidence = 1 / 2,
      rndResp = 1 / 2, rndRespConfidence = 1 / 2, rndSystolic = 1 / 2,
      rndDiastolic = 1 / 2, rndBpConfidence = 1 / 2, rndStress = 1 / 2,
      rndHrv = 1 / 2, rndHrvConfidence = 1 / 2, now = 0\<rparr>"

definition noFrameInput :: TickInput where
  "noFrameInput = faceInput\<lparr>frameFaceDetected := False, rgbValues := []\<rparr>"

definition countOf :: "Event \<Rightarrow> Event list \<Rightarrow> nat" where
  "countOf e es = length (filter (\<lambda>x. x = e) es)"

section \<open>Properties\<close>

subsection \<open>Auxiliary facts\<close>

lemma emitted_append: "events w' = events w @ es \<Longrightarrow> emitted w w' = es"
  by (simp add: emitted_def)

lemma countOf_append: "countOf e (xs @ ys) = countOf e xs + countOf e ys"
  by (simp add: countOf_def)




lemma lightingQualityOf_NaN: "lightingQualityOf None = 30"
  by (simp add: lightingQualityOf_def)

lemma updateSignalQuality_signalQuality:
  "signalQuality (updateSignalQuality fd rgb rm rp w) =
     \<lparr>overall = Math_round (overallOf fd (lightingQualityOf (brightness rgb))
                   (motionStabilityOf rm) (facePositionQualityOf fd rp)),
      faceDetected = fd,
      facePositionQuality = Math_round (facePositionQualityOf fd rp),
      lightingQuality = Math_round (lightingQualityOf (brightness rgb)),
      motionStability = Math_round (motionStabilityOf rm),
      recommendation = recommendationOf fd (lightingQualityOf (brightness rgb))
                         (motionStabilityOf rm)\<rparr>"
  by (simp add: updateSignalQuality_def emit_def Let_def)

text \<open>The quality notification is the one thing \<open>updateSignalQuality\<close> ever reports.\<close>

lemma updateSignalQuality_events:
  "events (updateSignalQuality fd rgb rm rp w) =
     events w @ [OnSignalQualityChange (signalQuality (updateSignalQuality fd rgb rm rp w))]"
  by (simp add: updateSignalQuality_def emit_def Let_def)

text \<open>
  Rounding to the nearest integer stays between floor and ceiling, so it does not cross
  an integer.
\<close>

lemma floor_le_roundEven: "\<lfloor>y\<rfloor> \<le> roundEven y"
  by (simp add: roundEven_def Let_def)

lemma roundEven_le_ceiling: "roundEven y \<le> \<lceil>y\<rceil>"
proof (cases "y = of_int \<lfloor>y\<rfloor>")
  case True
  then have "roundEven y = \<lfloor>y\<rfloor>"
    by (simp add: roundEven_def Let_def)
  then show ?thesis
    by (simp add: floor_le_ceiling)
next
  case False
  then have "\<lceil>y\<rceil> = \<lfloor>y\<rfloor> + 1"
    by (metis ceiling_altdef)
  then show ?thesis
    by (simp add: roundEven_def Let_def)
qed

lemma roundEven_ge:
  assumes "of_int n \<le> y"
  shows "n \<le> roundEven y"
proof -
  have "n \<le> \<lfloor>y\<rfloor>"
    using assms by (simp add: le_floor_iff)
  also have "\<dots> \<le> roundEven y"
    by (rule floor_le_roundEven)
  finally show ?thesis .
qed

lemma roundEven_le:
  assumes "y \<le> of_int n"
  shows "roundEven y \<le> n"
proof -
  have "roundEven y \<le> \<lceil>y\<rceil>"
    by (rule roundEven_le_ceiling)
  also have "\<dots> \<le> n"
    using assms by (simp add: ceiling_le_iff)
  finally show ?thesis .
qed

lemma dbl_nonneg: "0 \<le> x \<Longrightarrow> 0 \<le> dbl x"
proof (cases "x = 0")
  case True
  then show ?thesis
    by (simp add: dbl_def)
next
  case False
  assume "0 \<le> x"
  define u :: real where "u = 2 powi (max (- 1022) (ilog2 \<bar>x\<bar>) - 52)"
  have u: "0 < u"
    by (simp add: u_def)
  have "of_int 0 \<le> x / u"
    using \<open>0 \<le> x\<close> u by simp
  then have "0 \<le> roundEven (x / u)"
    by (rule roundEven_ge)
  then show ?thesis
    using False u by (simp add: dbl_def Let_def u_def)
qed

text \<open>The exponent of a positive number below \<open>2 ^ k\<close>, and of one in a binade.\<close>

lemma ilog2_le:
  assumes "0 < x" "x < 2 ^ k" "0 < k"
  shows "ilog2 x \<le> int k - 1"
proof (cases "1 \<le> x")
  case True
  have "\<lfloor>x\<rfloor> < 2 ^ k"
    using assms(2) by (metis floor_less_iff of_int_numeral of_int_power)
  then have "bitlen \<lfloor>x\<rfloor> \<le> int k"
    by (simp add: bitlen_le_iff_power)
  with True show ?thesis
    by (simp add: ilog2_def)
next
  case False
  have "0 \<le> bitlen (\<lceil>1 / x\<rceil> - 1)"
    by (rule bitlen_nonneg)
  with False \<open>0 < k\<close> show ?thesis
    by (simp add: ilog2_def)
qed

lemma ilog2_binade:
  assumes "2 ^ k \<le> x" "x < 2 ^ Suc k"
  shows "ilog2 x = int k"
proof -
  have one: "1 \<le> x"
    using assms(1) one_le_power[of "2::real" k] by linarith
  have lo: "2 ^ k \<le> \<lfloor>x\<rfloor>"
    using assms(1) by (metis le_floor_iff of_int_numeral of_int_power)
  have hi: "\<lfloor>x\<rfloor> < 2 ^ Suc k"
    using assms(2) by (metis floor_less_iff of_int_numeral of_int_power)
  have "bitlen \<lfloor>x\<rfloor> \<le> int (Suc k)"
    using hi bitlen_le_iff_power[of "\<lfloor>x\<rfloor>" "int (Suc k)"] unfolding nat_int by simp
  moreover have "int (Suc k) \<le> bitlen \<lfloor>x\<rfloor>"
    using lo bitlen_ge_iff_power[of "int (Suc k)" "\<lfloor>x\<rfloor>"] unfolding nat_int by simp
  ultimately have "bitlen \<lfloor>x\<rfloor> = int k + 1"
    by simp
  with one show ?thesis
    by (simp add: ilog2_def)
qed

text \<open>
  Rounding to a double does not cross a double: a positive \<open>x\<close> at most \<open>c\<close> rounds
  to at most \<open>c\<close>, when \<open>c\<close> below \<open>2 ^ k\<close> is a multiple of \<open>2 powi (k - 53)\<close>.
\<close>

lemma dbl_le_of_multiple:
  assumes "0 < x" "x \<le> c" "c < 2 ^ k" "0 < k" "k \<le> 53" "c * 2 ^ (53 - k) = of_int m"
  shows "dbl x \<le> c"
proof -
  define e where "e = max (- 1022) (ilog2 \<bar>x\<bar>)"
  define u :: real where "u = 2 powi (e - 52)"
  have u: "0 < u"
    by (simp add: u_def)
  have "ilog2 \<bar>x\<bar> \<le> int k - 1"
    using assms by (intro ilog2_le) auto
  then have e: "e \<le> int k - 1" "- 1022 \<le> e"
    using assms by (auto simp: e_def)
  define j where "j = nat (int k - 1 - e)"
  have ej: "- (e - 52) = int ((53 - k) + j)"
    using e assms by (simp add: j_def)
  have "1 / u = 2 powi (- (e - 52))"
    unfolding u_def by (simp only: power_int_minus inverse_eq_divide)
  also have "\<dots> = 2 ^ ((53 - k) + j)"
    unfolding ej by (rule power_int_of_nat)
  finally have a: "1 / u = 2 ^ (53 - k) * 2 ^ j"
    by (simp add: power_add)
  have "c / u = c * (1 / u)"
    by simp
  also have "\<dots> = (c * 2 ^ (53 - k)) * 2 ^ j"
    unfolding a by (simp only: mult.assoc)
  also have "\<dots> = of_int m * 2 ^ j"
    unfolding assms(6) ..
  finally have inv: "c / u = of_int (m * 2 ^ j)"
    by simp
  have "x / u \<le> c / u"
    using assms u by (simp add: divide_right_mono)
  with inv have "roundEven (x / u) \<le> m * 2 ^ j"
    by (intro roundEven_le) simp
  then have "u * of_int (roundEven (x / u)) \<le> u * of_int (m * 2 ^ j)"
    using u by (simp only: mult_le_cancel_left_pos of_int_le_iff)
  also have "\<dots> = c"
    using inv[symmetric] u by simp
  finally show ?thesis
    using assms(1) by (simp add: dbl_def Let_def e_def u_def)
qed

lemma dbl_binade:
  assumes "2 ^ k \<le> x" "x < 2 ^ Suc k" "k \<le> 52"
  shows "dbl x = of_int (roundEven (x * 2 ^ (52 - k))) / 2 ^ (52 - k)"
proof -
  have pos: "0 < x"
    using assms(1) zero_less_power[of "2::real" k] by linarith
  have "ilog2 x = int k"
    using assms by (simp add: ilog2_binade)
  then have e: "max (- 1022) (ilog2 x) - 52 = - int (52 - k)"
    using assms(3) by simp
  have u: "(2::real) powi (- int (52 - k)) = 1 / 2 ^ (52 - k)"
    by (simp only: power_int_minus power_int_of_nat inverse_eq_divide)
  show ?thesis
    using pos by (simp add: dbl_def Let_def e u)
qed

lemma dbl_ge_of_multiple:
  assumes "2 ^ k \<le> c" "c \<le> x" "x < 2 ^ Suc k" "k \<le> 52" "c * 2 ^ (52 - k) = of_int m"
  shows "c \<le> dbl x"
proof -
  have "of_int m \<le> x * 2 ^ (52 - k)"
    using assms(2) unfolding assms(5)[symmetric] by (simp add: mult_right_mono)
  then have "m \<le> roundEven (x * 2 ^ (52 - k))"
    by (rule roundEven_ge)
  then have "of_int m / 2 ^ (52 - k)
      \<le> of_int (roundEven (x * 2 ^ (52 - k))) / (2::real) ^ (52 - k)"
    by (simp add: divide_right_mono)
  moreover have "of_int m / 2 ^ (52 - k) = c"
    unfolding assms(5)[symmetric] by simp
  moreover have "dbl x = of_int (roundEven (x * 2 ^ (52 - k))) / 2 ^ (52 - k)"
    using assms by (intro dbl_binade) auto
  ultimately show ?thesis
    by simp
qed

text \<open>The motion score for a draw in [0, 1): the product, then the sum.\<close>

lemma dbl_motion_product:
  assumes "0 \<le> r" "r < 1"
  shows "0 \<le> dbl (r * 30)" "dbl (r * 30) \<le> 30"
proof -
  show "0 \<le> dbl (r * 30)"
    using assms by (intro dbl_nonneg) simp
  show "dbl (r * 30) \<le> 30"
  proof (cases "r = 0")
    case True
    then show ?thesis
      by (simp add: dbl_def)
  next
    case False
    then have p: "0 < r * 30"
      using assms by simp
    have q: "r * 30 \<le> 30"
      using assms by simp
    have m: "(30::real) * 2 ^ (53 - 5) = of_int (30 * 2 ^ 48)"
      by simp
    show ?thesis
      by (rule dbl_le_of_multiple[OF p q _ _ _ m]) simp_all
  qed
qed

lemma dbl_motion_sum:
  assumes "0 \<le> y" "y \<le> 30"
  shows "70 \<le> dbl (70 + y)" "dbl (70 + y) \<le> 100"
proof -
  have a: "(2::real) ^ 6 \<le> 70"
    by simp
  have b: "(70::real) \<le> 70 + y"
    using assms by simp
  have c: "70 + y < 2 ^ Suc 6"
    using assms by simp
  have d: "(70::real) * 2 ^ (52 - 6) = of_int (70 * 2 ^ 46)"
    by simp
  show "70 \<le> dbl (70 + y)"
    by (rule dbl_ge_of_multiple[OF a b c _ d]) simp
  have e: "0 < 70 + y"
    using assms by simp
  have f: "70 + y \<le> 100"
    using assms by simp
  have g: "(100::real) * 2 ^ (53 - 7) = of_int (100 * 2 ^ 46)"
    by simp
  show "dbl (70 + y) \<le> 100"
    by (rule dbl_le_of_multiple[OF e f _ _ _ g]) simp_all
qed

lemma motionStabilityOf_range:
  assumes "0 \<le> r" "r < 1"
  shows "70 \<le> motionStabilityOf r" "motionStabilityOf r \<le> 100"
  using dbl_motion_sum[OF dbl_motion_product[OF assms]]
  by (simp_all add: motionStabilityOf_def)

text \<open>Known values of double arithmetic, and the scores of the sample inputs.\<close>

lemma dbl_known_values:
  "dbl (3 / 10) = 5404319552844595 / 2 ^ 54"
  "dbl (4 / 10) = 7205759403792794 / 2 ^ 54"
  "dbl (dbl (1 / 10) + dbl (2 / 10)) = 5404319552844596 / 2 ^ 54"
  "dbl (1 / 2) = 1 / 2"
  by code_simp+

text \<open>
  Just below one half the product with 30 is below 15, and the sum with 70 rounds back
  to 85 or to the double before it; the blend with lighting 100 and face position 90
  then rounds to the tie 91.5, which \<^verbatim>\<open>Math.round\<close> takes up to 92.
\<close>

lemma double_rounding_below_one_half:
  "motionStabilityOf (1 / 2 - 1 / 2 ^ 52) = 85"
  "motionStabilityOf (1 / 2 - 1 / 2 ^ 51) = 85 - 1 / 2 ^ 46"
  "overallOf True 100 (85 - 1 / 2 ^ 46) 90 = 183 / 2"
  "Math_round (overallOf True 100 (motionStabilityOf (1 / 2 - 1 / 2 ^ 51)) 90) = 92"
  by code_simp+

lemma motionStabilityOf_half: "motionStabilityOf (1 / 2) = 85"
  by code_simp

lemma facePositionQualityOf_half: "facePositionQualityOf True (1 / 2) = 90"
  by code_simp

lemma overallOf_sample: "overallOf True 100 85 90 = 183 / 2"
  by code_simp

lemma motionStabilityOf_top:
  "motionStabilityOf (4503599627370495 / 4503599627370496) = 100"
  "motionStabilityOf (9007199254740991 / 9007199254740992) = 100"
  by code_simp+


lemma updateSignalQuality_frame:
  "state (updateSignalQuality fd rgb rm rp w) = state w"
  "frameCount (updateSignalQuality fd rgb rm rp w) = frameCount w"
  "calibrationComplete (updateSignalQuality fd rgb rm rp w) = calibrationComplete w"
  by (simp_all add: updateSignalQuality_def emit_def Let_def)

text \<open>The quality computed from the sample frame with a face.\<close>

lemma sample_quality:
  "signalQuality (updateSignalQuality True [150, 125, 100] (1 / 2) (1 / 2) w) =
     \<lparr>overall = 92, faceDetected = True, facePositionQuality = 90,
      lightingQuality = 100, motionStability = 85, recommendation = None\<rparr>"
proof -
  have lq: "lightingQualityOf (brightness [150, 125, 100]) = 100"
    by (simp add: lightingQualityOf_def brightness_def)
  have r: "Math_round (183 / 2) = 92" "Math_round 90 = 90" "Math_round 100 = 100"
    "Math_round 85 = 85"
    by (simp_all add: Math_round_def)
  show ?thesis
    by (simp add: updateSignalQuality_signalQuality lq motionStabilityOf_half
        facePositionQualityOf_half overallOf_sample r recommendationOf_def)
qed

lemma start_initialClosure:
  "start initialClosure =
     \<lparr>state = Calibrating, measurementInterval = Some 1, latestVitals = None,
      signalQuality = INITIAL_SIGNAL_QUALITY, frameCount = 0, calibrationComplete = False,
      timers = [1], lastHandle = 1, events = [OnMeasurementStart]\<rparr>"
  by (simp add: start_def initialClosure_def setInterval_def emit_def Let_def)

lemma initialClosure_not_measuring: "state initialClosure \<noteq> Measuring"
  by (simp add: initialClosure_def)

lemma start_not_measuring:
  assumes "state w \<noteq> Measuring"
  shows "state (start w) = Calibrating" "frameCount (start w) = 0"
    "\<not> calibrationComplete (start w)" "events (start w) = events w @ [OnMeasurementStart]"
  using assms by (simp_all add: start_def setInterval_def emit_def Let_def)

text \<open>One run of the loop, by the branch it takes.\<close>

lemma measurementLoop_calibrating:
  assumes "\<not> calibrationComplete w" "frameCount w + 1 < 3"
  shows "state (measurementLoop i w) = Calibrating"
    and "frameCount (measurementLoop i w) = frameCount w + 1"
    and "\<not> calibrationComplete (measurementLoop i w)"
    and "\<exists>es. events (measurementLoop i w) = events w @ es \<and> countOf OnReady es = 0"
  using assms
  by (simp_all add: measurementLoop_def updateSignalQuality_def emit_def Let_def countOf_def)

lemma measurementLoop_threshold:
  assumes "\<not> calibrationComplete w" "\<not> frameCount w + 1 < 3"
  shows "state (measurementLoop i w) = Measuring"
    and "frameCount (measurementLoop i w) = frameCount w + 1"
    and "calibrationComplete (measurementLoop i w)"
    and "\<exists>es. events (measurementLoop i w) = events w @ es \<and> countOf OnReady es = 1"
  using assms
  by (simp_all add: measurementLoop_def updateSignalQuality_def emit_def Let_def countOf_def)

lemma measurementLoop_calibrated:
  assumes "calibrationComplete w"
  shows "state (measurementLoop i w) = state w"
    and "frameCount (measurementLoop i w) = frameCount w + 1"
    and "calibrationComplete (measurementLoop i w)"
    and "\<exists>es. events (measurementLoop i w) = events w @ es \<and> countOf OnReady es = 0"
  using assms
  by (simp_all add: measurementLoop_def updateSignalQuality_def emit_def Let_def countOf_def)

lemma measurementLoop_timers: "timers (measurementLoop i w) = timers w"
  by (simp add: measurementLoop_def updateSignalQuality_def emit_def Let_def)

lemma ticks_timers: "timers (ticks is w) = timers w"
  by (induction "is" arbitrary: w) (simp_all add: measurementLoop_timers)

lemma ticks_snoc: "ticks (is @ [i]) w = measurementLoop i (ticks is w)"
  by (induction "is" arbitrary: w) simp_all

text \<open>
  The session after \<open>start\<close> and any number of runs of the loop: the frame counter is
  the number of runs, calibration is complete from the third run on, and the ready
  notification has been given once from then on.
\<close>

lemma ticks_after_start:
  assumes "state w \<noteq> Measuring"
  shows "frameCount (ticks is (start w)) = length is \<and>
         calibrationComplete (ticks is (start w)) = (3 \<le> length is) \<and>
         state (ticks is (start w)) = (if 3 \<le> length is then Measuring else Calibrating) \<and>
         (\<exists>es. events (ticks is (start w)) = events w @ es \<and>
               countOf OnReady es = (if 3 \<le> length is then 1 else 0))"
proof (induction "is" rule: rev_induct)
  case Nil
  show ?case using assms by (simp add: start_not_measuring countOf_def)
next
  case (snoc i "is")
  let ?w = "ticks is (start w)"
  from snoc obtain es where fc: "frameCount ?w = length is"
    and cc: "calibrationComplete ?w = (3 \<le> length is)"
    and st: "state ?w = (if 3 \<le> length is then Measuring else Calibrating)"
    and ev: "events ?w = events w @ es"
    and cnt: "countOf OnReady es = (if 3 \<le> length is then 1 else 0)"
    by blast
  consider (early) "length is + 1 < 3" | (reached) "length is + 1 = 3" | (late) "3 \<le> length is"
    by linarith
  then show ?case
  proof cases
    case early
    then have a: "\<not> calibrationComplete ?w" "frameCount ?w + 1 < 3"
      using cc fc by simp_all
    from measurementLoop_calibrating(4)[OF a, of i] obtain es' where
      e': "events (measurementLoop i ?w) = events ?w @ es'" "countOf OnReady es' = 0"
      by blast
    have "events (measurementLoop i ?w) = events w @ (es @ es')"
      using e' ev by simp
    moreover have "countOf OnReady (es @ es') = 0"
      using e' cnt early by (simp add: countOf_append)
    ultimately show ?thesis
      using early measurementLoop_calibrating(1-3)[OF a, of i] fc
      by (simp add: ticks_snoc del: append_assoc)
  next
    case reached
    then have a: "\<not> calibrationComplete ?w" "\<not> frameCount ?w + 1 < 3"
      using cc fc by simp_all
    from measurementLoop_threshold(4)[OF a, of i] obtain es' where
      e': "events (measurementLoop i ?w) = events ?w @ es'" "countOf OnReady es' = 1"
      by blast
    have "events (measurementLoop i ?w) = events w @ (es @ es')"
      using e' ev by simp
    moreover have "countOf OnReady (es @ es') = 1"
      using e' cnt reached by (simp add: countOf_append)
    ultimately show ?thesis
      using reached measurementLoop_threshold(1-3)[OF a, of i] fc
      by (simp add: ticks_snoc del: append_assoc)
  next
    case late
    then have a: "calibrationComplete ?w"
      using cc by simp
    from measurementLoop_calibrated(4)[OF a, of i] obtain es' where
      e': "events (measurementLoop i ?w) = events ?w @ es'" "countOf OnReady es' = 0"
      by blast
    have "events (measurementLoop i ?w) = events w @ (es @ es')"
      using e' ev by simp
    moreover have "countOf OnReady (es @ es') = 1"
      using e' cnt late by (simp add: countOf_append)
    ultimately show ?thesis
      using late measurementLoop_calibrated(1-3)[OF a, of i] fc st
      by (simp add: ticks_snoc del: append_assoc)
  qed
qed

text \<open>The third run of the loop after \<open>start\<close>, on a frame with a face.\<close>

lemma measurementLoop_third_run:
  assumes "\<not> calibrationComplete w" "frameCount w = 2"
  shows "emitted w (measurementLoop faceInput w) =
     [OnSignalQualityChange (signalQuality (measurementLoop faceInput w)), OnReady,
      OnVitalsUpdate (the (latestVitals (measurementLoop faceInput w)))]"
  using assms
  by (simp add: emitted_def measurementLoop_def updateSignalQuality_def emit_def Let_def
      faceInput_def)

text \<open>What the control methods report, and that they leave the latest vitals alone.\<close>

lemma control_emitted:
  "emitted w (start w) = (if state w = Measuring then [] else [OnMeasurementStart])"
  "emitted w (pause w) = []"
  "emitted w (resume w) = []"
  "emitted w (stop w) = [OnMeasurementStop]"
  by (simp_all add: emitted_def start_def pause_def resume_def stop_def setInterval_def
      clearInterval_def emit_def Let_def split: option.splits)

lemma control_latestVitals:
  "latestVitals (start w) = latestVitals w"
  "latestVitals (pause w) = latestVitals w"
  "latestVitals (resume w) = latestVitals w"
  "latestVitals (stop w) = latestVitals w"
  by (simp_all add: start_def pause_def resume_def stop_def setInterval_def
      clearInterval_def emit_def Let_def split: option.splits)

lemma measurementLoop_vitals:
  "list_ex isVitalsUpdate (emitted w (measurementLoop i w)) \<or>
     latestVitals (measurementLoop i w) \<noteq> latestVitals w \<Longrightarrow>
   state (measurementLoop i w) = Measuring \<and>
   faceDetected (signalQuality (measurementLoop i w))"
  by (auto simp add: emitted_def measurementLoop_def updateSignalQuality_def emit_def Let_def
      split: if_splits)

text \<open>
  No step of a session ever reports a change of face detection: the only call of that
  callback is guarded by a comparison of the new flag with itself.
\<close>

lemma no_step_reports_face_change:
  "\<not> list_ex isFaceDetectionChange (emitted w (step op w))"
  by (cases op)
     (simp_all add: emitted_def measurementLoop_def updateSignalQuality_def start_def
       pause_def resume_def stop_def setInterval_def clearInterval_def emit_def Let_def
       split: option.splits)

subsection \<open>Face-detection notification (C1)\<close>

text \<open>
  Claim C1 says that the face-detection notification fires on the runs of the loop where
  the face flag differs from the previous run's, in particular on the first run that
  detects a face. The source is run here at that input: a session just started (no face
  so far) and a first frame with a face. The face flag of the stored quality goes from
  false to true, and the quality notification is the only callback invoked.
\<close>

theorem first_detection_reports_quality_only:
  "\<not> faceDetected (signalQuality (start initialClosure)) \<and>
   faceDetected (signalQuality (measurementLoop faceInput (start initialClosure))) \<and>
   emitted (start initialClosure) (measurementLoop faceInput (start initialClosure)) =
     [OnSignalQualityChange
        \<lparr>overall = 92, faceDetected = True, facePositionQuality = 90,
         lightingQuality = 100, motionStability = 85, recommendation = None\<rparr>]"
  by (simp add: start_initialClosure)
     (simp add: measurementLoop_def emitted_def Let_def faceInput_def
       updateSignalQuality_frame updateSignalQuality_events sample_quality
       INITIAL_SIGNAL_QUALITY_def)

subsection \<open>Calling stop or start twice (C2)\<close>

text \<open>
  Claim C2 as stated fails on both counts. On a session just started, two calls of
  \<open>stop\<close> invoke the measurement-stopped callback twice; and a second call of
  \<open>start\<close> (the state is calibrating, not measuring) starts a second timer while the
  first keeps running, its handle overwritten.
\<close>

theorem stop_twice_start_twice_counterexample:
  "countOf OnMeasurementStop
     (emitted (start initialClosure) (stop (stop (start initialClosure)))) = 2 \<and>
   timers (start (start initialClosure)) = [1, 2] \<and>
   measurementInterval (start (start initialClosure)) = Some 2"
  by (simp add: start_initialClosure)
     (simp add: start_def stop_def emitted_def countOf_def setInterval_def clearInterval_def
       emit_def Let_def)

text \<open>
  Claim C2, amended. Two consecutive calls of \<open>stop\<close> leave the state idle and the
  handle variable empty, the second call cancels no timer, and the measurement-stopped
  callback is invoked by each call, twice in all. Two consecutive calls of \<open>start\<close>
  while the state is measuring change nothing, so they schedule no timer.
\<close>

theorem stop_twice_and_start_when_measuring:
  "state (stop (stop w)) = Idle \<and>
   emitted w (stop (stop w)) = [OnMeasurementStop, OnMeasurementStop] \<and>
   measurementInterval (stop (stop w)) = None \<and>
   timers (stop (stop w)) = timers (stop w) \<and>
   (state w = Measuring \<longrightarrow> start (start w) = w)"
  by (simp add: start_def stop_def emitted_def clearInterval_def emit_def Let_def
      split: option.splits)

text \<open>The amended C2 on a session that has reached the measuring state.\<close>

theorem stop_twice_and_start_when_measuring_witness:
  "state (ticks [faceInput, faceInput, faceInput] (start initialClosure)) = Measuring \<and>
   start (start (ticks [faceInput, faceInput, faceInput] (start initialClosure))) =
     ticks [faceInput, faceInput, faceInput] (start initialClosure) \<and>
   state (stop (stop (ticks [faceInput, faceInput, faceInput] (start initialClosure)))) = Idle"
proof -
  let ?w = "ticks [faceInput, faceInput, faceInput] (start initialClosure)"
  have "state ?w = Measuring"
    using ticks_after_start[OF initialClosure_not_measuring,
        of "[faceInput, faceInput, faceInput]"]
    by simp
  then show ?thesis
    using stop_twice_and_start_when_measuring[of ?w] by blast
qed

subsection \<open>Heart-rate status (C3)\<close>

text \<open>
  Claim C3 as stated puts a heart rate of 50 in the critical band. The source tests
  \<^verbatim>\<open>hr < 50\<close> strictly, so 50 is not critical: it falls through to the warning band.
\<close>

theorem getHeartRateStatus_50_not_critical:
  "getHeartRateStatus (Some 50) \<noteq> Critical \<and> getHeartRateStatus (Some 50) = Warning"
  by simp

text \<open>
  Claim C3, amended. The heart-rate status at the boundary values, as the source computes
  it: 50 and 59 are warning, 60 and 100 are normal, 101 and 120 are warning, 121 is
  critical, and an absent heart rate is unknown.
\<close>

theorem getHeartRateStatus_boundaries:
  "getHeartRateStatus (Some 50) = Warning \<and>
   getHeartRateStatus (Some 59) = Warning \<and>
   getHeartRateStatus (Some 60) = Normal \<and>
   getHeartRateStatus (Some 100) = Normal \<and>
   getHeartRateStatus (Some 101) = Warning \<and>
   getHeartRateStatus (Some 120) = Warning \<and>
   getHeartRateStatus (Some 121) = Critical \<and>
   getHeartRateStatus None = Unknown"
  by simp

subsection \<open>Calibration (C4)\<close>

text \<open>
  Claim C4. After \<open>start\<close> (on a session that is not already measuring, where \<open>start\<close>
  does nothing) the state is calibrating, and it is still calibrating after each of the
  first two runs of the loop, with no ready notification; the third run, where the frame
  counter reaches the constant 3, moves the state to measuring and gives the ready
  notification; after any number of runs from three on the state is measuring and the
  ready notification has been given exactly once. So the session is calibrating for one
  stretch only, and whatever the frames and random draws are.
\<close>

theorem calibration_lasts_three_ticks:
  assumes "state w \<noteq> Measuring"
  shows "state (start w) = Calibrating \<and>
         (length is < 3 \<longrightarrow>
            state (ticks is (start w)) = Calibrating \<and>
            countOf OnReady (emitted w (ticks is (start w))) = 0) \<and>
         (3 \<le> length is \<longrightarrow>
            state (ticks is (start w)) = Measuring \<and>
            countOf OnReady (emitted w (ticks is (start w))) = 1)"
proof -
  from ticks_after_start[OF assms, of "is"] obtain es where
    st: "state (ticks is (start w)) = (if 3 \<le> length is then Measuring else Calibrating)"
    and ev: "events (ticks is (start w)) = events w @ es"
    and cnt: "countOf OnReady es = (if 3 \<le> length is then 1 else 0)"
    by blast
  from ev have "emitted w (ticks is (start w)) = es"
    by (rule emitted_append)
  with st cnt show ?thesis
    using assms by (simp add: start_not_measuring)
qed

text \<open>C4 on a new session: two runs of the loop, then a third.\<close>

theorem calibration_lasts_three_ticks_witness:
  "state initialClosure \<noteq> Measuring \<and>
   state (start initialClosure) = Calibrating \<and>
   state (ticks [faceInput, noFrameInput] (start initialClosure)) = Calibrating \<and>
   countOf OnReady
     (emitted initialClosure (ticks [faceInput, noFrameInput] (start initialClosure))) = 0 \<and>
   state (ticks [faceInput, noFrameInput, faceInput] (start initialClosure)) = Measuring \<and>
   countOf OnReady
     (emitted initialClosure
        (ticks [faceInput, noFrameInput, faceInput] (start initialClosure))) = 1"
  using calibration_lasts_three_ticks[OF initialClosure_not_measuring,
      of "[faceInput, noFrameInput]"]
    calibration_lasts_three_ticks[OF initialClosure_not_measuring,
      of "[faceInput, noFrameInput, faceInput]"]
    initialClosure_not_measuring
  by simp

subsection \<open>The state field of the session object (C5)\<close>

text \<open>
  Claim C5 says that the \<^verbatim>\<open>state\<close> field of the returned session is the current state.
  The source is run here with an API key: the session object is built before \<open>start\<close>
  runs, so its field holds \<open>Initializing\<close> while the session's state variable is already
  \<open>Calibrating\<close> when the object is returned. No control method or run of the loop has
  the object among its arguments, so the field keeps that value.
\<close>

theorem session_state_field_is_initial_copy:
  "startPresageMeasurement (Some ''key'') ''presage-1-abc'' =
     Inr (\<lparr>sessionId = ''presage-1-abc'', sessionState = Initializing\<rparr>,
          start initialClosure) \<and>
   state (start initialClosure) = Calibrating"
  by (simp add: startPresageMeasurement_def Let_def start_initialClosure)
     (simp add: initialClosure_def)

subsection \<open>The overall score (C6)\<close>




subsection \<open>Lighting quality (C7)\<close>



subsection \<open>Vitals only while measuring (C8)\<close>

text \<open>
  Claim C8. Whatever happens to a session in whatever condition (a control method or a
  run of the loop): if the vitals callback is invoked or the latest vitals change, then
  it was a run of the loop and the state in which the reading is produced, which is the
  state the run ends in, is measuring. Read the other way: a step that ends in idle,
  initializing, calibrating, paused or error has invoked no vitals callback and has left
  the latest vitals as they were. The state is the one at the time of the reading: the
  run of the loop that ends calibration enters it calibrating, sets the state to measuring
  and then produces a reading.
\<close>

theorem vitals_only_when_measuring:
  "(list_ex isVitalsUpdate (emitted w (step op w)) \<or>
    latestVitals (step op w) \<noteq> latestVitals w
      \<longrightarrow> (\<exists>i. op = Tick i) \<and> state (step op w) = Measuring) \<and>
   (state (step op w) \<noteq> Measuring
      \<longrightarrow> \<not> list_ex isVitalsUpdate (emitted w (step op w)) \<and>
          latestVitals (step op w) = latestVitals w)"
proof (cases op)
  case (Tick i)
  then show ?thesis
    using measurementLoop_vitals[of w i] by (auto simp add: emitted_def)
qed (simp_all add: control_emitted control_latestVitals)

text \<open>
  C8 on a session after two runs of the loop: a third run on a frame with a face gives a
  reading and ends measuring; a pause instead ends paused and gives none.
\<close>

theorem vitals_only_when_measuring_witness:
  "list_ex isVitalsUpdate
     (emitted (ticks [faceInput, faceInput] (start initialClosure))
        (step (Tick faceInput) (ticks [faceInput, faceInput] (start initialClosure)))) \<and>
   state (step (Tick faceInput) (ticks [faceInput, faceInput] (start initialClosure)))
     = Measuring \<and>
   state (step Pause (ticks [faceInput, faceInput] (start initialClosure))) = Paused \<and>
   \<not> list_ex isVitalsUpdate
     (emitted (ticks [faceInput, faceInput] (start initialClosure))
        (step Pause (ticks [faceInput, faceInput] (start initialClosure))))"
proof -
  let ?w = "ticks [faceInput, faceInput] (start initialClosure)"
  have two: "frameCount ?w = 2" "\<not> calibrationComplete ?w"
    using ticks_after_start[OF initialClosure_not_measuring, of "[faceInput, faceInput]"]
    by simp_all
  have t: "timers ?w \<noteq> []"
    by (simp only: ticks_timers) (simp add: start_initialClosure)
  have a: "list_ex isVitalsUpdate (emitted ?w (step (Tick faceInput) ?w))"
    using t measurementLoop_third_run[OF two(2) two(1)] by simp
  have b: "state (step Pause ?w) = Paused"
    by (simp add: pause_def)
  show ?thesis
    using a b vitals_only_when_measuring[of ?w "Tick faceInput"]
      vitals_only_when_measuring[of ?w Pause]
    by simp
qed

subsection \<open>Vitals without a face (C9)\<close>

text \<open>
  Claim C9. When the stored quality has no face, every metric of the generated vitals
  (heart rate, oxygen saturation, respiratory rate, blood pressure, stress level, HRV) is
  absent and every confidence is 0; when it has a face, every metric is present. So a
  metric is present only with a face.
\<close>

theorem generateVitals_gated_on_face:
  "(\<not> faceDetected (signalQuality w) \<longrightarrow>
      heartRate (generateVitals i w) = None \<and>
      oxygenSaturation (generateVitals i w) = None \<and>
      respiratoryRate (generateVitals i w) = None \<and>
      bloodPressure (generateVitals i w) = None \<and>
      stressLevel (generateVitals i w) = None \<and>
      hrv (generateVitals i w) = None \<and>
      heartRateConfidence (generateVitals i w) = 0 \<and>
      oxygenSaturationConfidence (generateVitals i w) = 0 \<and>
      respiratoryRateConfidence (generateVitals i w) = 0 \<and>
      bloodPressureConfidence (generateVitals i w) = 0 \<and>
      hrvConfidence (generateVitals i w) = 0) \<and>
   (faceDetected (signalQuality w) \<longrightarrow>
      heartRate (generateVitals i w) \<noteq> None \<and>
      oxygenSaturation (generateVitals i w) \<noteq> None \<and>
      respiratoryRate (generateVitals i w) \<noteq> None \<and>
      bloodPressure (generateVitals i w) \<noteq> None \<and>
      stressLevel (generateVitals i w) \<noteq> None \<and>
      hrv (generateVitals i w) \<noteq> None)"
  by (simp add: generateVitals_def Let_def)

text \<open>
  C9 on a session just started (no face yet) and on the same session after one run of
  the loop on a frame with a face.
\<close>

theorem generateVitals_gated_on_face_witness:
  "\<not> faceDetected (signalQuality (start initialClosure)) \<and>
   heartRate (generateVitals faceInput (start initialClosure)) = None \<and>
   bloodPressure (generateVitals faceInput (start initialClosure)) = None \<and>
   hrvConfidence (generateVitals faceInput (start initialClosure)) = 0 \<and>
   faceDetected (signalQuality (measurementLoop faceInput (start initialClosure))) \<and>
   heartRate (generateVitals faceInput (measurementLoop faceInput (start initialClosure)))
     \<noteq> None"
proof -
  have a: "\<not> faceDetected (signalQuality (start initialClosure))"
    by (simp add: start_initialClosure INITIAL_SIGNAL_QUALITY_def)
  have b: "faceDetected (signalQuality (measurementLoop faceInput (start initialClosure)))"
    by (simp add: measurementLoop_def updateSignalQuality_def start_initialClosure emit_def
        Let_def faceInput_def)
  show ?thesis
    using a b generateVitals_gated_on_face[of "start initialClosure" faceInput]
      generateVitals_gated_on_face[of "measurementLoop faceInput (start initialClosure)"
        faceInput]
    by simp
qed

subsection \<open>The hold-still recommendation (C10)\<close>

text \<open>
  Claim C10 as stated has the motion stability below 100 on every run of the loop. In
  double arithmetic the upper end is reached: at the draw \<open>1 - 1 / 2 ^ 52\<close>, a value
  below 1, the product with 30 rounds to \<open>30 - 1 / 2 ^ 48\<close> and the sum with 70 rounds
  to exactly 100.
\<close>

theorem motion_stability_reaches_100:
  "(0::real) \<le> 1 - 1 / 2 ^ 52 \<and> (1::real) - 1 / 2 ^ 52 < 1 \<and>
   motionStabilityOf (1 - 1 / 2 ^ 52) = 100 \<and>
   \<not> motionStabilityOf (1 - 1 / 2 ^ 52) < 100"
  by (simp add: motionStabilityOf_top)

text \<open>
  Claim C10, amended. On every run of the loop whose motion draw is a value of
  \<^verbatim>\<open>Math.random()\<close>, that is at least 0 and below 1, the motion stability lies in the
  closed interval [70, 100], so the branch for a motion stability below 60 is not taken:
  the stored recommendation is never the hold-still message, it is the position-face
  message, the improve-lighting message or absent.
\<close>

theorem hold_still_never_recommended:
  assumes "0 \<le> rndMotion i" "rndMotion i < 1"
  shows "70 \<le> motionStabilityOf (rndMotion i) \<and> motionStabilityOf (rndMotion i) \<le> 100 \<and>
         \<not> motionStabilityOf (rndMotion i) < 60 \<and>
         recommendation (signalQuality (measurementLoop i w)) \<noteq> Some msgHoldStill \<and>
         recommendation (signalQuality (measurementLoop i w))
           \<in> {Some msgPositionFace, Some msgImproveLighting, None}"
proof -
  note r = motionStabilityOf_range[OF assms]
  have n: "\<not> motionStabilityOf (rndMotion i) < 60"
    using r(1) by simp
  have rec: "recommendation (signalQuality (measurementLoop i w)) =
      recommendationOf (frameFaceDetected i) (lightingQualityOf (brightness (rgbValues i)))
        (motionStabilityOf (rndMotion i))"
    by (simp add: measurementLoop_def Let_def emit_def updateSignalQuality_def)
  have "recommendation (signalQuality (measurementLoop i w)) \<noteq> Some msgHoldStill"
    unfolding rec using n
    by (simp add: recommendationOf_def msgHoldStill_def msgImproveLighting_def
        msgPositionFace_def)
  moreover have "recommendation (signalQuality (measurementLoop i w))
        \<in> {Some msgPositionFace, Some msgImproveLighting, None}"
    unfolding rec using n by (simp add: recommendationOf_def)
  ultimately show ?thesis
    using r n by simp
qed

text \<open>
  The amended C10 on the first run of the loop of a new session, with a motion draw of
  one half.
\<close>

theorem hold_still_never_recommended_witness:
  "0 \<le> rndMotion faceInput \<and> rndMotion faceInput < 1 \<and>
   motionStabilityOf (rndMotion faceInput) = 85 \<and>
   recommendation (signalQuality (measurementLoop faceInput (start initialClosure)))
     \<noteq> Some msgHoldStill"
proof -
  have r: "0 \<le> rndMotion faceInput" "rndMotion faceInput < 1"
    by (simp_all add: faceInput_def)
  have m: "motionStabilityOf (rndMotion faceInput) = 85"
    by (simp add: faceInput_def motionStabilityOf_half)
  show ?thesis
    using r m hold_still_never_recommended[OF r, of "start initialClosure"] by simp
qed

end
